theory Spec2Isabelle
  imports Main "HOL-Library.Word"
begin

section \<open>The watchtower process of the smartnode\<close>

text \<open>
  A shallow embedding of \<^verbatim>\<open>rocketpool-watchtower/watchtower/watchtower.go\<close>.

  Every method of \<^verbatim>\<open>WatchtowerProcess\<close> becomes a function that takes the process
  struct and returns the struct as the method leaves it, together with the list of
  effects the method performs, in program order. The services reached through the
  provider (chain client, contract manager, account manager, beacon client, publisher,
  logger) and the library calls are the environment: a record \<open>world\<close> holds the answer
  each of them gives during one run of a method.

  A \<^verbatim>\<open>go\<close> statement is the effect \<open>Go\<close> naming the goroutine started; the body
  of each goroutine is a function of its own. The stop channel is unbuffered, so a send
  on it completes only when a goroutine receives; the only receive is in the \<^verbatim>\<open>select\<close>
  of the timer goroutine. The model counts the timer goroutines that wait there: a send
  is the effect \<open>ChanSend\<close> when one of them waits, and otherwise the method that sends
  never returns.
\<close>

subsection \<open>Values\<close>

type_synonym address = "160 word"
type_synonym bytes = "8 word list"
type_synonym chan = nat
type_synonym duration = int
type_synonym contract = nat
type_synonym transactor = nat
type_synonym client = nat

text \<open>\<^verbatim>\<open>accounts.Account\<close>; only its address is read.\<close>

record Account =
  Address :: address

text \<open>Go's zero value of an account: the address of twenty zero bytes.\<close>

definition zeroAccount :: Account where
  "zeroAccount = \<lparr>Address = 0\<rparr>"

text \<open>
  Modelled from the spec: \<^verbatim>\<open>beaconchain.ClientMessage\<close> and
  \<^verbatim>\<open>beaconchain.ServerMessage\<close> are declared in the beacon-chain package, which is
  not among the sources. The outbound request carries an operation tag and a pubkey; the
  inbound message carries an operation tag, a pubkey, a status code and a balance that
  is a smallest-unit (gwei) integer. The width of the balance field is not given, so it
  is a natural number.
\<close>

datatype ClientMessage = ClientMessage string string

record ServerMessage =
  Message :: string
  Pubkey :: string
  StatusCode :: string
  Balance :: nat

text \<open>
  The lifecycle constants \<^verbatim>\<open>minipool.STAKING\<close> and \<^verbatim>\<open>minipool.LOGGED_OUT\<close> are
  declared in the minipool package, which is not among the sources: they are parameters.
\<close>

record minipool_consts =
  STAKING :: "8 word"
  LOGGED_OUT :: "8 word"

text \<open>Arguments of a contract call or transaction.\<close>

datatype arg = AddressArg address | BigIntArg int

subsection \<open>Effects\<close>

text \<open>
  The lines printed through \<^verbatim>\<open>p.p.Log.Println\<close>, one constructor for each format
  string of the source with the values it prints. An error value is printed as its
  message.
\<close>

datatype log_line =
    NodeTrustedStarting
  | NodeUntrustedStopping
  | CheckingActiveMinipools
  | CheckingMinipoolStatus address
  | TimeUntilNextCheck duration
  | ReadyForLogout address
  | LoggedOutSuccessfully address
  | ReadyForWithdrawal address
  | WithdrawnSuccessfully address int
  | ErrorLine string

datatype goroutine =
    TrustedTicker
  | BeaconWorker
  | StatusRequest string address
  | MinipoolsTimer duration

datatype effect =
    Println log_line
  | WaitSync
  | NodeAccountLookup
  | Call string string "arg list"
  | ActiveMinipoolsQuery
  | NewContractAt address string
  | CallAt contract string
  | TransactorLookup
  | Transaction transactor string string "arg list"
  | AddSubscriber string chan
  | RemoveSubscriber string chan
  | MakeChan chan
  | ChanSend chan
  | ChanReceive chan
  | BeaconSend bytes
  | Go goroutine
  | NewTimer duration
  | TimerStop
  | Lock
  | Unlock

subsection \<open>The environment\<close>

text \<open>
  The answers of the services and libraries during one run of a method. A Go
  \<^verbatim>\<open>error\<close> is its message; a call that returns only an error returns \<open>None\<close> for
  \<^verbatim>\<open>nil\<close>; a call that returns a value or an error returns a sum, \<open>Inl\<close> the error.
  \<^verbatim>\<open>GetNodeAccount\<close> returns both an account and an error, as in Go, since the
  source reads the account without looking at the error.
\<close>

record world =
  GetNodeAccount :: "Account \<times> string option"
  getTrusted :: "address \<Rightarrow> string + bool"
  GetActiveMinipoolsByValidatorPubkey :: "string + (string \<times> address) list"
  Marshal :: "ClientMessage \<Rightarrow> string + bytes"
  Send :: "bytes \<Rightarrow> string option"
  getMinipoolCheckInterval :: "string + int"
  String :: "int \<Rightarrow> string"
  ParseDuration :: "string \<Rightarrow> duration \<times> string option"
  Unmarshal :: "bytes \<Rightarrow> string + ServerMessage"
  NewContract :: "address \<Rightarrow> string \<Rightarrow> string + contract"
  getStatus :: "contract \<Rightarrow> string + 8 word"
  GetNodeAccountTransactor :: "string + transactor"
  ExecuteContractTransaction ::
    "transactor \<Rightarrow> string \<Rightarrow> string \<Rightarrow> arg list \<Rightarrow> string option"

subsection \<open>The process\<close>

text \<open>
  The struct \<^verbatim>\<open>WatchtowerProcess\<close>. The map \<^verbatim>\<open>activeMinipools\<close> is the list of
  its entries (keys distinct in a Go map), read with \<open>map_of\<close>; the order of the list
  stands for the order in which \<^verbatim>\<open>range\<close> visits the entries. The provider is the
  \<open>world\<close> argument of each method; the mutex shows as the effects \<open>Lock\<close> and
  \<open>Unlock\<close>.

  The last field is not a field of the struct but the state of the runtime that the
  methods change and depend on: the number of goroutines started by
  \<^verbatim>\<open>scheduleCheckMinipools\<close> that have not left their \<^verbatim>\<open>select\<close>. They are the
  goroutines that can receive from \<^verbatim>\<open>stopCheckMinipools\<close>.
\<close>

record WatchtowerProcess =
  updatingMinipools :: bool
  stopCheckMinipools :: chan
  beaconMessageChannel :: chan
  activeMinipools :: "(string \<times> address) list"
  waitingTimers :: nat

text \<open>
  \<^verbatim>\<open>StartWatchtowerProcess\<close> and \<^verbatim>\<open>start\<close>: the two channels are made here, as
  the next two channels of the runtime (\<open>n\<close> channels exist before), and the two
  goroutines are started.
\<close>

definition start :: "WatchtowerProcess \<Rightarrow> effect list" where
  "start p = [Go TrustedTicker, Go BeaconWorker]"

definition StartWatchtowerProcess :: "nat \<Rightarrow> WatchtowerProcess \<times> effect list" where
  "StartWatchtowerProcess n =
     (let process = \<lparr>updatingMinipools = False,
                      stopCheckMinipools = n,
                      beaconMessageChannel = Suc n,
                      activeMinipools = [],
                      waitingTimers = 0\<rparr>
      in (process, [MakeChan n, MakeChan (Suc n)] @ start process))"

subsection \<open>Discovery\<close>

text \<open>The body of the goroutine started for each active minipool.\<close>

definition requestValidatorStatus :: "world \<Rightarrow> string \<Rightarrow> address \<Rightarrow> effect list" where
  "requestValidatorStatus w pubkey minipoolAddress =
     Println (CheckingMinipoolStatus minipoolAddress) #
     (case Marshal w (ClientMessage ''get_validator_status'' pubkey) of
        Inl err \<Rightarrow>
          [Println (ErrorLine (''Error encoding get validator status payload: '' @ err))]
      | Inr payload \<Rightarrow>
          BeaconSend payload #
          (case Send w payload of
             Some err \<Rightarrow>
               [Println (ErrorLine (''Error sending get validator status message: '' @ err))]
           | None \<Rightarrow> []))"

text \<open>
  \<^verbatim>\<open>scheduleCheckMinipools\<close>: the interval is zero when the setting cannot be read
  or its text does not parse (\<^verbatim>\<open>ParseDuration\<close> returns zero with its error), and a
  zero interval is replaced by the default. The goroutine started at the end is one more
  that waits in its \<^verbatim>\<open>select\<close>.
\<close>

definition DEFAULT_CHECK_MINIPOOLS_INTERVAL :: string where
  "DEFAULT_CHECK_MINIPOOLS_INTERVAL = ''1m''"

definition checkInterval :: "world \<Rightarrow> duration" where
  "checkInterval w =
     (let d = (case getMinipoolCheckInterval w of
                 Inr checkIntervalSeconds \<Rightarrow>
                   fst (ParseDuration w (String w checkIntervalSeconds @ ''s''))
               | Inl err \<Rightarrow> 0)
      in if d = 0 then fst (ParseDuration w DEFAULT_CHECK_MINIPOOLS_INTERVAL) else d)"

definition scheduleCheckMinipools ::
  "world \<Rightarrow> WatchtowerProcess \<Rightarrow> WatchtowerProcess \<times> effect list" where
  "scheduleCheckMinipools w p =
     (p\<lparr>waitingTimers := Suc (waitingTimers p)\<rparr>,
      [WaitSync,
       Call ''rocketMinipoolSettings'' ''getMinipoolCheckInterval'' [],
       Println (TimeUntilNextCheck (checkInterval w)),
       Go (MinipoolsTimer (checkInterval w))])"

definition checkMinipools :: "world \<Rightarrow> WatchtowerProcess \<Rightarrow> WatchtowerProcess \<times> effect list" where
  "checkMinipools w p =
     (case GetActiveMinipoolsByValidatorPubkey w of
        Inl err \<Rightarrow>
          (p, [Println CheckingActiveMinipools, WaitSync, ActiveMinipoolsQuery,
               Println (ErrorLine (''Error getting active minipools: '' @ err))])
      | Inr found \<Rightarrow>
          (let (p', es) = scheduleCheckMinipools w (p\<lparr>activeMinipools := found\<rparr>)
           in (p',
               [Println CheckingActiveMinipools, WaitSync, ActiveMinipoolsQuery] @
               map (\<lambda>(pubkey, minipoolAddress). Go (StatusRequest pubkey minipoolAddress)) found @
               es)))"

text \<open>
  The body of the timer goroutine, which is one of the goroutines counted by
  \<open>waitingTimers\<close>: the \<^verbatim>\<open>select\<close> takes whichever of the timer and the stop
  channel is ready. When the timer fires the goroutine leaves the \<^verbatim>\<open>select\<close> and runs
  the next cycle. When it receives from the stop channel it has left the \<^verbatim>\<open>select\<close>
  by the send that it receives (see \<open>stopUpdateMinipools\<close>), and it stops its timer.
\<close>

datatype selected = TimerFired | StopReceived

definition minipoolsTimer ::
  "world \<Rightarrow> duration \<Rightarrow> selected \<Rightarrow> WatchtowerProcess \<Rightarrow> WatchtowerProcess \<times> effect list" where
  "minipoolsTimer w d sel p =
     (case sel of
        TimerFired \<Rightarrow>
          (let (p', es) = checkMinipools w (p\<lparr>waitingTimers := waitingTimers p - 1\<rparr>)
           in (p', NewTimer d # es))
      | StopReceived \<Rightarrow>
          (p, [NewTimer d, ChanReceive (stopCheckMinipools p), TimerStop]))"

subsection \<open>The trust check\<close>

definition startUpdateMinipools ::
  "world \<Rightarrow> WatchtowerProcess \<Rightarrow> WatchtowerProcess \<times> effect list" where
  "startUpdateMinipools w p =
     (if updatingMinipools p then (p, [])
      else
        (let (p', es) = checkMinipools w (p\<lparr>updatingMinipools := True\<rparr>)
         in (p', Println NodeTrustedStarting # es @
                 [AddSubscriber ''beacon.client.message'' (beaconMessageChannel p')])))"

text \<open>
  A method that may wait forever: \<open>Returns\<close> when it returns, \<open>Blocks\<close> when it
  never does, each with the process as the method leaves it and the effects it has
  performed.
\<close>

datatype run =
    Returns (processOf: WatchtowerProcess) (effectsOf: "effect list")
  | Blocks (processOf: WatchtowerProcess) (effectsOf: "effect list")


text \<open>The run of a method after the effects that went before it in its caller.\<close>

fun afterEffects :: "effect list \<Rightarrow> run \<Rightarrow> run" where
  "afterEffects es (Returns p es') = Returns p (es @ es')"
| "afterEffects es (Blocks p es') = Blocks p (es @ es')"

text \<open>
  \<^verbatim>\<open>stopUpdateMinipools\<close>. The flag is cleared and the line printed before the send.
  The send on the unbuffered stop channel completes when a timer goroutine waits in its
  \<^verbatim>\<open>select\<close>: that goroutine receives, so it waits no longer, and the method goes on
  to unsubscribe and return. When no timer goroutine waits, nothing receives, now or
  later (only this method's caller could start one), and the method blocks in the send.
\<close>

definition stopUpdateMinipools :: "WatchtowerProcess \<Rightarrow> run" where
  "stopUpdateMinipools p =
     (if \<not> updatingMinipools p then Returns p []
      else if waitingTimers p = 0 then
        Blocks (p\<lparr>updatingMinipools := False\<rparr>) [Println NodeUntrustedStopping]
      else
        Returns (p\<lparr>updatingMinipools := False, waitingTimers := waitingTimers p - 1\<rparr>)
          [Println NodeUntrustedStopping,
           ChanSend (stopCheckMinipools p),
           RemoveSubscriber ''beacon.client.message'' (beaconMessageChannel p)])"

definition checkTrusted :: "world \<Rightarrow> WatchtowerProcess \<Rightarrow> run" where
  "checkTrusted w p =
     (let nodeAccount = fst (GetNodeAccount w);
          es = [WaitSync, NodeAccountLookup,
                Call ''rocketNodeAPI'' ''getTrusted'' [AddressArg (Address nodeAccount)]]
      in case getTrusted w (Address nodeAccount) of
           Inl err \<Rightarrow>
             Returns p (es @ [Println (ErrorLine (''Error retrieving node trusted status: '' @ err))])
         | Inr trusted \<Rightarrow>
             if trusted then
               (let (p', es') = startUpdateMinipools w p in Returns p' (es @ es'))
             else afterEffects es (stopUpdateMinipools p))"

text \<open>
  The body of the ticker goroutine of \<^verbatim>\<open>start\<close>: one trust check at once and one
  at every tick, each with the answers the environment gives then. A check that blocks
  is the last.
\<close>

fun trustedTicker :: "world list \<Rightarrow> WatchtowerProcess \<Rightarrow> run" where
  "trustedTicker [] p = Returns p []"
| "trustedTicker (w # ws) p =
     (case checkTrusted w p of
        Returns p1 es1 \<Rightarrow> afterEffects es1 (trustedTicker ws p1)
      | Blocks p1 es1 \<Rightarrow> Blocks p1 es1)"

subsection \<open>Units\<close>

text \<open>
  The source converts the balance of a message with \<^verbatim>\<open>float64(message.Balance)\<close>.
  A \<^verbatim>\<open>float64\<close> is represented by the number it holds; the conversion of an
  unsigned integer rounds to the nearest number with 53 significant bits, ties to the
  even one, so the number held is again a natural number.
\<close>

type_synonym float64 = nat

function bitlen :: "nat \<Rightarrow> nat" where
  "bitlen n = (if n = 0 then 0 else Suc (bitlen (n div 2)))"
  by pat_completeness auto
termination
  by (relation "measure id") auto

declare bitlen.simps [simp del]

definition float64 :: "nat \<Rightarrow> float64" where
  "float64 n =
     (if n < 2 ^ 53 then n
      else
        (let e = bitlen n - 53;
             q = n div 2 ^ e;
             r = n mod 2 ^ e;
             half = 2 ^ (e - 1)
         in (if half < r \<or> (r = half \<and> odd q) then q + 1 else q) * 2 ^ e))"

text \<open>
  Modelled from the spec: \<^verbatim>\<open>eth.GweiToWei\<close> is defined in the package
  \<^verbatim>\<open>shared/utils/eth\<close>, which is not among the sources. The spec has it convert the
  reported balance from the smallest unit given to the base denomination: one gwei is
  \<open>10\<^sup>9\<close> wei, so that \<open>1000000000\<close> gwei are \<open>10\<^sup>1\<^sup>8\<close> wei, which is \<open>1.0\<close>
  ether.
\<close>

definition GweiToWei :: "float64 \<Rightarrow> int" where
  "GweiToWei gwei = int gwei * 10 ^ 9"

subsection \<open>The message handler\<close>

definition getMinipoolStatus :: "world \<Rightarrow> address \<Rightarrow> (string + 8 word) \<times> effect list" where
  "getMinipoolStatus w address =
     (case NewContract w address ''rocketMinipool'' of
        Inl err \<Rightarrow>
          (Inl (''Error initialising minipool contract: '' @ err),
           [NewContractAt address ''rocketMinipool''])
      | Inr minipoolContract \<Rightarrow>
          (case getStatus w minipoolContract of
             Inl err \<Rightarrow>
               (Inl (''Error retrieving minipool status: '' @ err),
                [NewContractAt address ''rocketMinipool'', CallAt minipoolContract ''getStatus''])
           | Inr status \<Rightarrow>
               (Inr status,
                [NewContractAt address ''rocketMinipool'', CallAt minipoolContract ''getStatus''])))"

text \<open>
  \<^verbatim>\<open>onBeaconClientMessage\<close> does not write to the process. The deferred unlock runs
  on every return, so the effects of the body stand between \<open>Lock\<close> and \<open>Unlock\<close>.
\<close>

definition onBeaconClientMessage ::
  "minipool_consts \<Rightarrow> world \<Rightarrow> WatchtowerProcess \<Rightarrow> bytes \<Rightarrow> effect list" where
  "onBeaconClientMessage k w p messageData =
     Lock #
     (case Unmarshal w messageData of
        Inl err \<Rightarrow> [Println (ErrorLine (''Error decoding beacon message: '' @ err))]
      | Inr message \<Rightarrow>
          if Message message \<noteq> ''validator_status'' then []
          else if \<not> (StatusCode message = ''exited'' \<or> StatusCode message = ''withdrawable'')
          then []
          else
            (case map_of (activeMinipools p) (Pubkey message) of
               None \<Rightarrow> []
             | Some minipoolAddress \<Rightarrow>
                 WaitSync #
                 snd (getMinipoolStatus w minipoolAddress) @
                 (case fst (getMinipoolStatus w minipoolAddress) of
                    Inl err \<Rightarrow> [Println (ErrorLine err)]
                  | Inr status \<Rightarrow>
                      if status = STAKING k then
                        Println (ReadyForLogout minipoolAddress) #
                        TransactorLookup #
                        (case GetNodeAccountTransactor w of
                           Inl err \<Rightarrow> [Println (ErrorLine err)]
                         | Inr txor \<Rightarrow>
                             Transaction txor ''rocketNodeWatchtower'' ''logoutMinipool''
                               [AddressArg minipoolAddress] #
                             (case ExecuteContractTransaction w txor ''rocketNodeWatchtower''
                                     ''logoutMinipool'' [AddressArg minipoolAddress] of
                                Some err \<Rightarrow>
                                  [Println (ErrorLine (''Error logging out minipool: '' @ err))]
                              | None \<Rightarrow> [Println (LoggedOutSuccessfully minipoolAddress)]))
                      else if status = LOGGED_OUT k \<and> StatusCode message = ''withdrawable'' then
                        (let balanceWei = GweiToWei (float64 (Balance message))
                         in Println (ReadyForWithdrawal minipoolAddress) #
                            TransactorLookup #
                            (case GetNodeAccountTransactor w of
                               Inl err \<Rightarrow> [Println (ErrorLine err)]
                             | Inr txor \<Rightarrow>
                                 Transaction txor ''rocketNodeWatchtower'' ''withdrawMinipool''
                                   [AddressArg minipoolAddress, BigIntArg balanceWei] #
                                 (case ExecuteContractTransaction w txor ''rocketNodeWatchtower''
                                         ''withdrawMinipool''
                                         [AddressArg minipoolAddress, BigIntArg balanceWei] of
                                    Some err \<Rightarrow>
                                      [Println (ErrorLine (''Error withdrawing minipool: '' @ err))]
                                  | None \<Rightarrow>
                                      [Println (WithdrawnSuccessfully minipoolAddress balanceWei)])))
                      else []))) @
     [Unlock]"

text \<open>
  The body of the worker goroutine of \<^verbatim>\<open>start\<close>. A value received from the channel
  is an \<^verbatim>\<open>interface{}\<close>: either of the dynamic type
  \<^verbatim>\<open>struct{Client *beaconchain.Client; Message []byte}\<close> or of another dynamic type
  (numbered). The type assertion of the source has one result, so it panics on a value
  of another type and the goroutine ends there. Each delivery comes with the answers of
  the environment and the process struct as they are when the worker takes it (discovery
  runs in other goroutines).
\<close>

datatype any = EventValue client bytes | OtherValue nat

datatype ending = Drained | Panicked

fun beaconWorker ::
  "minipool_consts \<Rightarrow> (world \<times> WatchtowerProcess \<times> any) list \<Rightarrow> effect list \<times> ending" where
  "beaconWorker k [] = ([], Drained)"
| "beaconWorker k ((w, p, eventData) # rest) =
     (case eventData of
        EventValue c message \<Rightarrow>
          (let (es, r) = beaconWorker k rest
           in (onBeaconClientMessage k w p message @ es, r))
      | OtherValue t \<Rightarrow> ([], Panicked))"

subsection \<open>Reading the effects\<close>

fun isTransaction :: "effect \<Rightarrow> bool" where
  "isTransaction (Transaction txor c m as) = True"
| "isTransaction e = False"

fun isGo :: "effect \<Rightarrow> bool" where
  "isGo (Go g) = True"
| "isGo e = False"



fun isPrintln :: "effect \<Rightarrow> bool" where
  "isPrintln (Println l) = True"
| "isPrintln e = False"

fun isEventValue :: "any \<Rightarrow> bool" where
  "isEventValue (EventValue c m) = True"
| "isEventValue (OtherValue t) = False"

text \<open>The transactions among the effects, in order.\<close>

definition transactions :: "effect list \<Rightarrow> effect list" where
  "transactions es = filter isTransaction es"

definition isAddSubscriber :: "effect \<Rightarrow> bool" where
  "isAddSubscriber e = (case e of AddSubscriber topic c \<Rightarrow> True | _ \<Rightarrow> False)"

text \<open>A discovery cycle makes the query for the active minipools once.\<close>

definition isDiscovery :: "effect \<Rightarrow> bool" where
  "isDiscovery e = (e = ActiveMinipoolsQuery)"

subsection \<open>Examples\<close>

text \<open>
  A message for the validator \<open>pubkeyA\<close> that has exited, an environment in which
  every call succeeds and the minipool is staking, and a supervising process that manages
  two minipools. The other examples change one answer each.
\<close>

definition exampleMessage :: ServerMessage where
  "exampleMessage =
     \<lparr>Message = ''validator_status'', Pubkey = ''pubkeyA'',
      StatusCode = ''exited'', Balance = 1000000000\<rparr>"

definition exampleConsts :: minipool_consts where
  "exampleConsts = \<lparr>STAKING = 2, LOGGED_OUT = 3\<rparr>"

definition exampleWorld :: world where
  "exampleWorld =
     \<lparr>GetNodeAccount = (\<lparr>Address = 1\<rparr>, None),
      getTrusted = (\<lambda>a. Inr True),
      GetActiveMinipoolsByValidatorPubkey = Inr [(''pubkeyA'', 10), (''pubkeyB'', 11)],
      Marshal = (\<lambda>m. Inr []),
      Send = (\<lambda>payload. None),
      getMinipoolCheckInterval = Inr 30,
      String = (\<lambda>n. ''30''),
      ParseDuration = (\<lambda>s. if s = ''1m'' then (60000000000, None) else (30000000000, None)),
      Unmarshal = (\<lambda>messageData. Inr exampleMessage),
      NewContract = (\<lambda>a name. Inr 7),
      getStatus = (\<lambda>c. Inr 2),
      GetNodeAccountTransactor = Inr 5,
      ExecuteContractTransaction = (\<lambda>txor c m as. None)\<rparr>"

definition exampleProcess :: WatchtowerProcess where
  "exampleProcess =
     \<lparr>updatingMinipools = True, stopCheckMinipools = 0, beaconMessageChannel = 1,
      activeMinipools = [(''pubkeyA'', 10), (''pubkeyB'', 11)], waitingTimers = 1\<rparr>"

text \<open>The node account cannot be unlocked: no transactor.\<close>

definition lockedWorld :: world where
  "lockedWorld = exampleWorld\<lparr>GetNodeAccountTransactor := Inl ''Could not unlock node account''\<rparr>"

text \<open>The validator is withdrawable with the given balance and the minipool is logged out.\<close>

definition withdrawableMessage :: "nat \<Rightarrow> ServerMessage" where
  "withdrawableMessage balance =
     \<lparr>Message = ''validator_status'', Pubkey = ''pubkeyA'',
      StatusCode = ''withdrawable'', Balance = balance\<rparr>"

definition loggedOutWorld :: "nat \<Rightarrow> world" where
  "loggedOutWorld balance =
     exampleWorld\<lparr>Unmarshal := (\<lambda>messageData. Inr (withdrawableMessage balance)),
                  getStatus := (\<lambda>c. Inr 3)\<rparr>"

definition lockedLoggedOutWorld :: world where
  "lockedLoggedOutWorld =
     (loggedOutWorld 1000000000)\<lparr>GetNodeAccountTransactor := Inl ''Could not unlock node account''\<rparr>"

text \<open>The active minipools cannot be read.\<close>

definition unreadableWorld :: world where
  "unreadableWorld =
     exampleWorld\<lparr>GetActiveMinipoolsByValidatorPubkey := Inl ''no contract code''\<rparr>"

text \<open>The node account cannot be read: the zero account comes with the error.\<close>

definition accountlessWorld :: world where
  "accountlessWorld = exampleWorld\<lparr>GetNodeAccount := (zeroAccount, Some ''no account'')\<rparr>"

text \<open>
  The start of a second supervision session: the process is made, supervision starts,
  stands down and starts again.
\<close>

definition firstSession :: WatchtowerProcess where
  "firstSession = fst (startUpdateMinipools exampleWorld (fst (StartWatchtowerProcess 0)))"



section \<open>Properties\<close>

subsection \<open>The examples, evaluated\<close>

lemma exampleWorld_simps:
  "GetNodeAccount exampleWorld = (\<lparr>Address = 1\<rparr>, None)"
  "getTrusted exampleWorld a = Inr True"
  "GetActiveMinipoolsByValidatorPubkey exampleWorld = Inr [(''pubkeyA'', 10), (''pubkeyB'', 11)]"
  "Unmarshal exampleWorld messageData = Inr exampleMessage"
  "NewContract exampleWorld a name = Inr 7"
  "getStatus exampleWorld c = Inr 2"
  "GetNodeAccountTransactor exampleWorld = Inr 5"
  "ExecuteContractTransaction exampleWorld txor c' m as = None"
  by (simp_all add: exampleWorld_def)

lemma exampleMessage_simps:
  "Message exampleMessage = ''validator_status''"
  "Pubkey exampleMessage = ''pubkeyA''"
  "StatusCode exampleMessage = ''exited''"
  "Balance exampleMessage = 1000000000"
  by (simp_all add: exampleMessage_def)

lemma exampleProcess_simps:
  "updatingMinipools exampleProcess = True"
  "stopCheckMinipools exampleProcess = 0"
  "beaconMessageChannel exampleProcess = 1"
  "activeMinipools exampleProcess = [(''pubkeyA'', 10), (''pubkeyB'', 11)]"
  "waitingTimers exampleProcess = 1"
  by (simp_all add: exampleProcess_def)

lemma exampleConsts_simps:
  "STAKING exampleConsts = 2" "LOGGED_OUT exampleConsts = 3"
  by (simp_all add: exampleConsts_def)

lemma lockedWorld_simps:
  "Unmarshal lockedWorld messageData = Inr exampleMessage"
  "NewContract lockedWorld a name = Inr 7"
  "getStatus lockedWorld c = Inr 2"
  "GetNodeAccountTransactor lockedWorld = Inl ''Could not unlock node account''"
  by (simp_all add: lockedWorld_def exampleWorld_simps)

lemma withdrawableMessage_simps:
  "Message (withdrawableMessage b) = ''validator_status''"
  "Pubkey (withdrawableMessage b) = ''pubkeyA''"
  "StatusCode (withdrawableMessage b) = ''withdrawable''"
  "Balance (withdrawableMessage b) = b"
  by (simp_all add: withdrawableMessage_def)

lemma loggedOutWorld_simps:
  "Unmarshal (loggedOutWorld b) messageData = Inr (withdrawableMessage b)"
  "NewContract (loggedOutWorld b) a name = Inr 7"
  "getStatus (loggedOutWorld b) c = Inr 3"
  "GetNodeAccountTransactor (loggedOutWorld b) = Inr 5"
  by (simp_all add: loggedOutWorld_def exampleWorld_simps)

lemma lockedLoggedOutWorld_simps:
  "Unmarshal lockedLoggedOutWorld messageData = Inr (withdrawableMessage 1000000000)"
  "NewContract lockedLoggedOutWorld a name = Inr 7"
  "getStatus lockedLoggedOutWorld c = Inr 3"
  "GetNodeAccountTransactor lockedLoggedOutWorld = Inl ''Could not unlock node account''"
  by (simp_all add: lockedLoggedOutWorld_def loggedOutWorld_simps)

lemma unreadableWorld_simps:
  "GetActiveMinipoolsByValidatorPubkey unreadableWorld = Inl ''no contract code''"
  by (simp add: unreadableWorld_def)

lemma accountlessWorld_simps:
  "GetNodeAccount accountlessWorld = (zeroAccount, Some ''no account'')"
  "getTrusted accountlessWorld a = Inr True"
  by (simp_all add: accountlessWorld_def exampleWorld_simps)

subsection \<open>What a discovery cycle leaves alone\<close>

lemma checkMinipools_updating:
  "updatingMinipools (fst (checkMinipools w p)) = updatingMinipools p"
  by (simp add: checkMinipools_def scheduleCheckMinipools_def split: sum.split)

lemma checkMinipools_channels:
  "stopCheckMinipools (fst (checkMinipools w p)) = stopCheckMinipools p"
  "beaconMessageChannel (fst (checkMinipools w p)) = beaconMessageChannel p"
  by (simp_all add: checkMinipools_def scheduleCheckMinipools_def split: sum.split)


lemma filter_spawns:
  "(\<And>pubkey minipoolAddress. \<not> P (Go (StatusRequest pubkey minipoolAddress))) \<Longrightarrow>
   filter P (map (\<lambda>(pubkey, minipoolAddress). Go (StatusRequest pubkey minipoolAddress)) found) = []"
  by (induction found) auto

lemma checkMinipools_discovery:
  "filter isDiscovery (snd (checkMinipools w p)) = [ActiveMinipoolsQuery]"
  by (simp add: checkMinipools_def scheduleCheckMinipools_def isDiscovery_def filter_spawns
      split: sum.split)

lemma checkMinipools_no_subscriber:
  "filter isAddSubscriber (snd (checkMinipools w p)) = []"
  by (simp add: checkMinipools_def scheduleCheckMinipools_def isAddSubscriber_def filter_spawns
      split: sum.split)



lemma startUpdateMinipools_unfold:
  "\<not> updatingMinipools p \<Longrightarrow>
   startUpdateMinipools w p =
     (fst (checkMinipools w (p\<lparr>updatingMinipools := True\<rparr>)),
      Println NodeTrustedStarting # snd (checkMinipools w (p\<lparr>updatingMinipools := True\<rparr>)) @
      [AddSubscriber ''beacon.client.message'' (beaconMessageChannel p)])"
  by (simp add: startUpdateMinipools_def split_beta checkMinipools_channels)

lemma startUpdateMinipools_supervising:
  "updatingMinipools p \<Longrightarrow> startUpdateMinipools w p = (p, [])"
  by (simp add: startUpdateMinipools_def)

lemma startUpdateMinipools_updating:
  "updatingMinipools (fst (startUpdateMinipools w p))"
  by (cases "updatingMinipools p")
     (simp_all add: startUpdateMinipools_unfold startUpdateMinipools_supervising
        checkMinipools_updating)





lemma stopUpdateMinipools_idle:
  "\<not> updatingMinipools p \<Longrightarrow> stopUpdateMinipools p = Returns p []"
  by (simp add: stopUpdateMinipools_def)

lemma stopUpdateMinipools_down:
  "\<not> updatingMinipools (processOf (stopUpdateMinipools p))"
  by (simp add: stopUpdateMinipools_def)

subsection \<open>The transactions of the message handler\<close>

lemma transactions_getMinipoolStatus:
  "filter isTransaction (snd (getMinipoolStatus w a)) = []"
  by (simp add: getMinipoolStatus_def split: sum.split)

text \<open>
  The decision table of the handler, read off the effects: what is submitted for a status
  message of a managed minipool whose stage has been read.
\<close>

lemma onBeaconClientMessage_read:
  assumes "Unmarshal w messageData = Inr message"
    and "Message message = ''validator_status''"
    and "StatusCode message = ''exited'' \<or> StatusCode message = ''withdrawable''"
    and "map_of (activeMinipools p) (Pubkey message) = Some minipoolAddress"
    and "fst (getMinipoolStatus w minipoolAddress) = Inr status"
  shows "transactions (onBeaconClientMessage k w p messageData) =
     (if status = STAKING k then
        (case GetNodeAccountTransactor w of
           Inl err \<Rightarrow> []
         | Inr txor \<Rightarrow>
             [Transaction txor ''rocketNodeWatchtower'' ''logoutMinipool''
                [AddressArg minipoolAddress]])
      else if status = LOGGED_OUT k \<and> StatusCode message = ''withdrawable'' then
        (case GetNodeAccountTransactor w of
           Inl err \<Rightarrow> []
         | Inr txor \<Rightarrow>
             [Transaction txor ''rocketNodeWatchtower'' ''withdrawMinipool''
                [AddressArg minipoolAddress,
                 BigIntArg (GweiToWei (float64 (Balance message)))]])
      else [])"
  using assms
  by (simp add: onBeaconClientMessage_def transactions_def transactions_getMinipoolStatus Let_def
      split: sum.split option.split)

lemma float64_exact: "n < 2 ^ 53 \<Longrightarrow> float64 n = n"
  by (simp add: float64_def)

lemma GweiToWei_exact: "n < 2 ^ 53 \<Longrightarrow> GweiToWei (float64 n) = int n * 10 ^ 9"
  by (simp only: float64_exact GweiToWei_def)

lemma bitlen_rounded: "bitlen 9007199254740993 = 54"
  by (simp add: bitlen.simps)

lemma float64_rounds: "float64 9007199254740993 = 9007199254740992"
  by (simp add: float64_def bitlen_rounded)

lemma example_resolves:
  "map_of (activeMinipools exampleProcess) (Pubkey exampleMessage) = Some 10"
  "map_of (activeMinipools exampleProcess) (Pubkey (withdrawableMessage b)) = Some 10"
  by (simp_all add: exampleMessage_simps withdrawableMessage_simps exampleProcess_simps)

subsection \<open>Claims\<close>

text \<open>
  C1, as the code has it. For a \<open>validator_status\<close> message whose code is \<open>exited\<close>
  or \<open>withdrawable\<close>, whose pubkey resolves to a managed minipool and whose stage has
  been read: when the stage is staking and the transactor of the node account is obtained,
  exactly one transaction is submitted, the logout of that minipool, and no withdrawal;
  when the stage is staking and the transactor is not obtained, the error is printed to
  the log, after the line that announces the logout, and no transaction is submitted;
  when the stage is logged out and the code is \<open>exited\<close>, or the stage is
  neither staking nor logged out, no transaction is submitted.
\<close>

theorem logout_decision:
  assumes "Unmarshal w messageData = Inr message"
    and "Message message = ''validator_status''"
    and "StatusCode message = ''exited'' \<or> StatusCode message = ''withdrawable''"
    and "map_of (activeMinipools p) (Pubkey message) = Some minipoolAddress"
    and "fst (getMinipoolStatus w minipoolAddress) = Inr status"
    and "STAKING k \<noteq> LOGGED_OUT k"
  shows "(status = STAKING k \<and> GetNodeAccountTransactor w = Inr txor \<longrightarrow>
            transactions (onBeaconClientMessage k w p messageData) =
              [Transaction txor ''rocketNodeWatchtower'' ''logoutMinipool''
                 [AddressArg minipoolAddress]]) \<and>
         (status = STAKING k \<and> GetNodeAccountTransactor w = Inl err \<longrightarrow>
            transactions (onBeaconClientMessage k w p messageData) = []) \<and>
         (status = LOGGED_OUT k \<and> StatusCode message = ''exited'' \<longrightarrow>
            transactions (onBeaconClientMessage k w p messageData) = []) \<and>
         (status \<noteq> STAKING k \<and> status \<noteq> LOGGED_OUT k \<longrightarrow>
            transactions (onBeaconClientMessage k w p messageData) = []) \<and>
         (status = STAKING k \<and> GetNodeAccountTransactor w = Inl err \<longrightarrow>
            onBeaconClientMessage k w p messageData =
              Lock # WaitSync # snd (getMinipoolStatus w minipoolAddress) @
              [Println (ReadyForLogout minipoolAddress), TransactorLookup,
               Println (ErrorLine err), Unlock])"
proof -
  have sent: "(status = STAKING k \<and> GetNodeAccountTransactor w = Inr txor \<longrightarrow>
        transactions (onBeaconClientMessage k w p messageData) =
          [Transaction txor ''rocketNodeWatchtower'' ''logoutMinipool''
             [AddressArg minipoolAddress]]) \<and>
      (status = STAKING k \<and> GetNodeAccountTransactor w = Inl err \<longrightarrow>
        transactions (onBeaconClientMessage k w p messageData) = []) \<and>
      (status = LOGGED_OUT k \<and> StatusCode message = ''exited'' \<longrightarrow>
        transactions (onBeaconClientMessage k w p messageData) = []) \<and>
      (status \<noteq> STAKING k \<and> status \<noteq> LOGGED_OUT k \<longrightarrow>
        transactions (onBeaconClientMessage k w p messageData) = [])"
    using assms(6) by (simp add: onBeaconClientMessage_read [OF assms(1-5)])
  have logged: "status = STAKING k \<and> GetNodeAccountTransactor w = Inl err \<longrightarrow>
      onBeaconClientMessage k w p messageData =
        Lock # WaitSync # snd (getMinipoolStatus w minipoolAddress) @
        [Println (ReadyForLogout minipoolAddress), TransactorLookup,
         Println (ErrorLine err), Unlock]"
    using assms(1-5) by (simp add: onBeaconClientMessage_def)
  from sent logged show ?thesis
    by blast
qed

text \<open>The example: the minipool of \<open>pubkeyA\<close> is staking and is logged out, once.\<close>

theorem logout_decision_witness:
  "Unmarshal exampleWorld [] = Inr exampleMessage \<and>
   Message exampleMessage = ''validator_status'' \<and>
   StatusCode exampleMessage = ''exited'' \<and>
   map_of (activeMinipools exampleProcess) (Pubkey exampleMessage) = Some 10 \<and>
   fst (getMinipoolStatus exampleWorld 10) = Inr (STAKING exampleConsts) \<and>
   STAKING exampleConsts \<noteq> LOGGED_OUT exampleConsts \<and>
   GetNodeAccountTransactor exampleWorld = Inr 5 \<and>
   transactions (onBeaconClientMessage exampleConsts exampleWorld exampleProcess []) =
     [Transaction 5 ''rocketNodeWatchtower'' ''logoutMinipool'' [AddressArg 10]]"
proof -
  have h1: "Unmarshal exampleWorld [] = Inr exampleMessage"
    by (simp add: exampleWorld_simps)
  have h2: "Message exampleMessage = ''validator_status''"
    by (simp add: exampleMessage_simps)
  have h3: "StatusCode exampleMessage = ''exited'' \<or> StatusCode exampleMessage = ''withdrawable''"
    by (simp add: exampleMessage_simps)
  have h4: "map_of (activeMinipools exampleProcess) (Pubkey exampleMessage) = Some 10"
    by (rule example_resolves)
  have h5: "fst (getMinipoolStatus exampleWorld 10) = Inr (STAKING exampleConsts)"
    by (simp add: getMinipoolStatus_def exampleWorld_simps exampleConsts_simps)
  have h6: "STAKING exampleConsts \<noteq> LOGGED_OUT exampleConsts"
    by (simp add: exampleConsts_simps)
  have h7: "GetNodeAccountTransactor exampleWorld = Inr 5"
    by (simp add: exampleWorld_simps)
  show ?thesis
    using h1 h2 h4 h5 h6 h7 logout_decision [OF h1 h2 h3 h4 h5 h6, of 5, THEN conjunct1]
    by (simp add: exampleMessage_simps)
qed

text \<open>
  C1 as stated fails where the transactor of the node account is not obtained: the
  message is an \<open>exited\<close> status of a managed minipool that is staking, and no logout
  is submitted.
\<close>

theorem logout_not_submitted_without_transactor:
  "Unmarshal lockedWorld [] = Inr exampleMessage \<and>
   Message exampleMessage = ''validator_status'' \<and>
   StatusCode exampleMessage = ''exited'' \<and>
   map_of (activeMinipools exampleProcess) (Pubkey exampleMessage) = Some 10 \<and>
   fst (getMinipoolStatus lockedWorld 10) = Inr (STAKING exampleConsts) \<and>
   transactions (onBeaconClientMessage exampleConsts lockedWorld exampleProcess []) = []"
proof -
  have h1: "Unmarshal lockedWorld [] = Inr exampleMessage"
    by (simp add: lockedWorld_simps)
  have h2: "Message exampleMessage = ''validator_status''"
    by (simp add: exampleMessage_simps)
  have h3: "StatusCode exampleMessage = ''exited'' \<or> StatusCode exampleMessage = ''withdrawable''"
    by (simp add: exampleMessage_simps)
  have h4: "map_of (activeMinipools exampleProcess) (Pubkey exampleMessage) = Some 10"
    by (rule example_resolves)
  have h5: "fst (getMinipoolStatus lockedWorld 10) = Inr (STAKING exampleConsts)"
    by (simp add: getMinipoolStatus_def lockedWorld_simps exampleConsts_simps)
  have "transactions (onBeaconClientMessage exampleConsts lockedWorld exampleProcess []) = []"
    by (simp add: onBeaconClientMessage_read [OF h1 h2 h3 h4 h5] lockedWorld_simps)
  then show ?thesis
    using h1 h2 h4 h5 by (simp add: exampleMessage_simps)
qed

text \<open>
  C2, as the code has it. For a \<open>validator_status\<close> message whose code is
  \<open>withdrawable\<close>, whose pubkey resolves to a managed minipool and whose stage reads
  logged out: when the transactor of the node account is obtained, exactly one
  transaction is submitted, the withdrawal of that minipool, and its balance argument is
  \<open>GweiToWei\<close> of the reported balance converted to a \<^verbatim>\<open>float64\<close>; for every
  reported balance below \<open>2\<^sup>5\<^sup>3\<close> gwei that argument is exactly the balance times
  \<open>10\<^sup>9\<close>, in wei; when the transactor is not obtained the error is printed to the
  log, after the line that announces the withdrawal, and no transaction is submitted.
\<close>

theorem withdraw_balance:
  assumes "Unmarshal w messageData = Inr message"
    and "Message message = ''validator_status''"
    and "StatusCode message = ''withdrawable''"
    and "map_of (activeMinipools p) (Pubkey message) = Some minipoolAddress"
    and "fst (getMinipoolStatus w minipoolAddress) = Inr (LOGGED_OUT k)"
    and "STAKING k \<noteq> LOGGED_OUT k"
  shows "(GetNodeAccountTransactor w = Inr txor \<longrightarrow>
            transactions (onBeaconClientMessage k w p messageData) =
              [Transaction txor ''rocketNodeWatchtower'' ''withdrawMinipool''
                 [AddressArg minipoolAddress,
                  BigIntArg (GweiToWei (float64 (Balance message)))]]) \<and>
         (GetNodeAccountTransactor w = Inr txor \<and> Balance message < 2 ^ 53 \<longrightarrow>
            transactions (onBeaconClientMessage k w p messageData) =
              [Transaction txor ''rocketNodeWatchtower'' ''withdrawMinipool''
                 [AddressArg minipoolAddress,
                  BigIntArg (int (Balance message) * 10 ^ 9)]]) \<and>
         (GetNodeAccountTransactor w = Inl err \<longrightarrow>
            transactions (onBeaconClientMessage k w p messageData) = []) \<and>
         (GetNodeAccountTransactor w = Inl err \<longrightarrow>
            onBeaconClientMessage k w p messageData =
              Lock # WaitSync # snd (getMinipoolStatus w minipoolAddress) @
              [Println (ReadyForWithdrawal minipoolAddress), TransactorLookup,
               Println (ErrorLine err), Unlock])"
proof -
  have code: "StatusCode message = ''exited'' \<or> StatusCode message = ''withdrawable''"
    using assms(3) by simp
  have other: "LOGGED_OUT k \<noteq> STAKING k"
    using assms(6) by simp
  have sent: "transactions (onBeaconClientMessage k w p messageData) =
      (case GetNodeAccountTransactor w of
         Inl err \<Rightarrow> []
       | Inr txor \<Rightarrow>
           [Transaction txor ''rocketNodeWatchtower'' ''withdrawMinipool''
              [AddressArg minipoolAddress,
               BigIntArg (GweiToWei (float64 (Balance message)))]])"
    using assms(3) other
    by (simp add: onBeaconClientMessage_read [OF assms(1) assms(2) code assms(4) assms(5)])
  show ?thesis
  proof (intro conjI impI)
    assume "GetNodeAccountTransactor w = Inr txor"
    then show "transactions (onBeaconClientMessage k w p messageData) =
        [Transaction txor ''rocketNodeWatchtower'' ''withdrawMinipool''
           [AddressArg minipoolAddress, BigIntArg (GweiToWei (float64 (Balance message)))]]"
      by (simp only: sent sum.case)
  next
    assume h: "GetNodeAccountTransactor w = Inr txor \<and> Balance message < 2 ^ 53"
    then have "GweiToWei (float64 (Balance message)) = int (Balance message) * 10 ^ 9"
      using GweiToWei_exact by blast
    with h show "transactions (onBeaconClientMessage k w p messageData) =
        [Transaction txor ''rocketNodeWatchtower'' ''withdrawMinipool''
           [AddressArg minipoolAddress, BigIntArg (int (Balance message) * 10 ^ 9)]]"
      by (simp only: sent sum.case)
  next
    assume "GetNodeAccountTransactor w = Inl err"
    then show "transactions (onBeaconClientMessage k w p messageData) = []"
      by (simp only: sent sum.case)
  next
    assume "GetNodeAccountTransactor w = Inl err"
    then show "onBeaconClientMessage k w p messageData =
        Lock # WaitSync # snd (getMinipoolStatus w minipoolAddress) @
        [Println (ReadyForWithdrawal minipoolAddress), TransactorLookup,
         Println (ErrorLine err), Unlock]"
      using assms(1-5) other by (simp add: onBeaconClientMessage_def Let_def)
  qed
qed

text \<open>
  The example of the spec: a reported balance of \<open>1000000000\<close> gwei is passed as
  \<open>10\<^sup>1\<^sup>8\<close> wei, which is \<open>1.0\<close> ether.
\<close>

theorem withdraw_balance_witness:
  "Unmarshal (loggedOutWorld 1000000000) [] = Inr (withdrawableMessage 1000000000) \<and>
   Message (withdrawableMessage 1000000000) = ''validator_status'' \<and>
   StatusCode (withdrawableMessage 1000000000) = ''withdrawable'' \<and>
   map_of (activeMinipools exampleProcess) (Pubkey (withdrawableMessage 1000000000)) = Some 10 \<and>
   fst (getMinipoolStatus (loggedOutWorld 1000000000) 10) = Inr (LOGGED_OUT exampleConsts) \<and>
   STAKING exampleConsts \<noteq> LOGGED_OUT exampleConsts \<and>
   GetNodeAccountTransactor (loggedOutWorld 1000000000) = Inr 5 \<and>
   Balance (withdrawableMessage 1000000000) < 2 ^ 53 \<and>
   transactions (onBeaconClientMessage exampleConsts (loggedOutWorld 1000000000) exampleProcess []) =
     [Transaction 5 ''rocketNodeWatchtower'' ''withdrawMinipool''
        [AddressArg 10, BigIntArg 1000000000000000000]]"
proof -
  have h1: "Unmarshal (loggedOutWorld 1000000000) [] = Inr (withdrawableMessage 1000000000)"
    by (simp add: loggedOutWorld_simps)
  have h2: "Message (withdrawableMessage 1000000000) = ''validator_status''"
    by (simp add: withdrawableMessage_simps)
  have h3: "StatusCode (withdrawableMessage 1000000000) = ''withdrawable''"
    by (simp add: withdrawableMessage_simps)
  have h4: "map_of (activeMinipools exampleProcess) (Pubkey (withdrawableMessage 1000000000)) =
      Some 10"
    by (rule example_resolves)
  have h5: "fst (getMinipoolStatus (loggedOutWorld 1000000000) 10) = Inr (LOGGED_OUT exampleConsts)"
    by (simp add: getMinipoolStatus_def loggedOutWorld_simps exampleConsts_simps)
  have h6: "STAKING exampleConsts \<noteq> LOGGED_OUT exampleConsts"
    by (simp add: exampleConsts_simps)
  have h7: "GetNodeAccountTransactor (loggedOutWorld 1000000000) = Inr 5"
    by (simp add: loggedOutWorld_simps)
  have h8: "Balance (withdrawableMessage 1000000000) < 2 ^ 53"
    by (simp add: withdrawableMessage_simps)
  show ?thesis
    using h1 h2 h3 h4 h5 h6 h7 h8
      withdraw_balance [OF h1 h2 h3 h4 h5 h6, of 5, THEN conjunct2, THEN conjunct1]
    by (simp add: withdrawableMessage_simps)
qed

text \<open>
  C2 as stated fails at two inputs. Where the transactor of the node account is not
  obtained, a \<open>withdrawable\<close> status of a managed minipool that is logged out submits
  no withdrawal. Where the reported balance is \<open>2\<^sup>5\<^sup>3 + 1 = 9007199254740993\<close> gwei,
  the conversion to \<^verbatim>\<open>float64\<close> rounds it to \<open>2\<^sup>5\<^sup>3\<close>, and the balance passed is
  \<open>9007199254740992000000000\<close> wei, not the reported balance in wei.
\<close>

theorem withdraw_balance_counterexample:
  "Unmarshal lockedLoggedOutWorld [] = Inr (withdrawableMessage 1000000000) \<and>
   map_of (activeMinipools exampleProcess) (Pubkey (withdrawableMessage 1000000000)) = Some 10 \<and>
   fst (getMinipoolStatus lockedLoggedOutWorld 10) = Inr (LOGGED_OUT exampleConsts) \<and>
   transactions (onBeaconClientMessage exampleConsts lockedLoggedOutWorld exampleProcess []) = [] \<and>
   Unmarshal (loggedOutWorld 9007199254740993) [] = Inr (withdrawableMessage 9007199254740993) \<and>
   fst (getMinipoolStatus (loggedOutWorld 9007199254740993) 10) = Inr (LOGGED_OUT exampleConsts) \<and>
   transactions (onBeaconClientMessage exampleConsts (loggedOutWorld 9007199254740993)
       exampleProcess []) =
     [Transaction 5 ''rocketNodeWatchtower'' ''withdrawMinipool''
        [AddressArg 10, BigIntArg 9007199254740992000000000]] \<and>
   (9007199254740992000000000 :: int) \<noteq> 9007199254740993 * 10 ^ 9"
proof -
  have h2: "Message (withdrawableMessage b) = ''validator_status''" for b
    by (simp add: withdrawableMessage_simps)
  have h3: "StatusCode (withdrawableMessage b) = ''exited'' \<or>
      StatusCode (withdrawableMessage b) = ''withdrawable''" for b
    by (simp add: withdrawableMessage_simps)
  have h4: "map_of (activeMinipools exampleProcess) (Pubkey (withdrawableMessage b)) = Some 10" for b
    by (rule example_resolves)
  have a1: "Unmarshal lockedLoggedOutWorld [] = Inr (withdrawableMessage 1000000000)"
    by (simp add: lockedLoggedOutWorld_simps)
  have a5: "fst (getMinipoolStatus lockedLoggedOutWorld 10) = Inr (LOGGED_OUT exampleConsts)"
    by (simp add: getMinipoolStatus_def lockedLoggedOutWorld_simps exampleConsts_simps)
  have a: "transactions (onBeaconClientMessage exampleConsts lockedLoggedOutWorld exampleProcess []) = []"
    by (simp add: onBeaconClientMessage_read [OF a1 h2 h3 h4 a5] lockedLoggedOutWorld_simps
        exampleConsts_simps withdrawableMessage_simps)
  have b1: "Unmarshal (loggedOutWorld 9007199254740993) [] =
      Inr (withdrawableMessage 9007199254740993)"
    by (simp add: loggedOutWorld_simps)
  have b5: "fst (getMinipoolStatus (loggedOutWorld 9007199254740993) 10) =
      Inr (LOGGED_OUT exampleConsts)"
    by (simp add: getMinipoolStatus_def loggedOutWorld_simps exampleConsts_simps)
  have b: "transactions (onBeaconClientMessage exampleConsts (loggedOutWorld 9007199254740993)
        exampleProcess []) =
      [Transaction 5 ''rocketNodeWatchtower'' ''withdrawMinipool''
         [AddressArg 10, BigIntArg 9007199254740992000000000]]"
    by (simp add: onBeaconClientMessage_read [OF b1 h2 h3 h4 b5] loggedOutWorld_simps
        exampleConsts_simps withdrawableMessage_simps float64_rounds GweiToWei_def)
  show ?thesis
    using a1 a5 a b1 b5 b h4 by simp
qed




text \<open>
  C4. A \<open>validator_status\<close> message with an allowed status code whose pubkey is not a
  key of \<^verbatim>\<open>activeMinipools\<close> does nothing between taking and releasing the lock: no
  wait for the chain to sync, no read of a minipool's status, no transaction and no line
  in the log.
\<close>

theorem unknown_pubkey_dropped:
  assumes "Unmarshal w messageData = Inr message"
    and "Message message = ''validator_status''"
    and "StatusCode message = ''exited'' \<or> StatusCode message = ''withdrawable''"
    and "map_of (activeMinipools p) (Pubkey message) = None"
  shows "onBeaconClientMessage k w p messageData = [Lock, Unlock]"
  using assms by (simp add: onBeaconClientMessage_def)

text \<open>The example: the process manages \<open>pubkeyB\<close> only, the message is for \<open>pubkeyA\<close>.\<close>

theorem unknown_pubkey_dropped_witness:
  "Unmarshal exampleWorld [] = Inr exampleMessage \<and>
   Message exampleMessage = ''validator_status'' \<and>
   StatusCode exampleMessage = ''exited'' \<and>
   map_of (activeMinipools (exampleProcess\<lparr>activeMinipools := [(''pubkeyB'', 11)]\<rparr>))
     (Pubkey exampleMessage) = None \<and>
   onBeaconClientMessage exampleConsts exampleWorld
     (exampleProcess\<lparr>activeMinipools := [(''pubkeyB'', 11)]\<rparr>) [] = [Lock, Unlock]"
proof -
  have h1: "Unmarshal exampleWorld [] = Inr exampleMessage"
    by (simp add: exampleWorld_simps)
  have h2: "Message exampleMessage = ''validator_status''"
    by (simp add: exampleMessage_simps)
  have h3: "StatusCode exampleMessage = ''exited'' \<or> StatusCode exampleMessage = ''withdrawable''"
    by (simp add: exampleMessage_simps)
  have h4: "map_of (activeMinipools (exampleProcess\<lparr>activeMinipools := [(''pubkeyB'', 11)]\<rparr>))
      (Pubkey exampleMessage) = None"
    by (simp add: exampleMessage_simps)
  show ?thesis
    using h1 h2 h4 unknown_pubkey_dropped [OF h1 h2 h3 h4, of exampleConsts]
    by (simp add: exampleMessage_simps)
qed

text \<open>
  C5. A discovery cycle whose query for the active minipools fails prints the error and
  returns: the process is as before (\<^verbatim>\<open>activeMinipools\<close> included), and no goroutine
  is started, neither a status request nor the timer of the next cycle. While the
  process is supervising, starting supervision after such a cycle does nothing.
\<close>

theorem checkMinipools_error_aborts:
  assumes "GetActiveMinipoolsByValidatorPubkey w = Inl err"
  shows "checkMinipools w p =
           (p, [Println CheckingActiveMinipools, WaitSync, ActiveMinipoolsQuery,
                Println (ErrorLine (''Error getting active minipools: '' @ err))]) \<and>
         filter isGo (snd (checkMinipools w p)) = [] \<and>
         (updatingMinipools p \<longrightarrow>
            startUpdateMinipools w' (fst (checkMinipools w p)) = (p, []))"
  using assms by (simp add: checkMinipools_def startUpdateMinipools_def)

theorem checkMinipools_error_aborts_witness:
  "GetActiveMinipoolsByValidatorPubkey unreadableWorld = Inl ''no contract code'' \<and>
   updatingMinipools exampleProcess \<and>
   fst (checkMinipools unreadableWorld exampleProcess) = exampleProcess \<and>
   filter isGo (snd (checkMinipools unreadableWorld exampleProcess)) = [] \<and>
   startUpdateMinipools exampleWorld (fst (checkMinipools unreadableWorld exampleProcess)) =
     (exampleProcess, [])"
proof -
  have h: "GetActiveMinipoolsByValidatorPubkey unreadableWorld = Inl ''no contract code''"
    by (rule unreadableWorld_simps)
  have supervising: "updatingMinipools exampleProcess"
    by (simp add: exampleProcess_simps)
  show ?thesis
    using h supervising checkMinipools_error_aborts [OF h, of exampleProcess exampleWorld]
    by (simp add: startUpdateMinipools_supervising)
qed

text \<open>
  C6. After a discovery cycle whose query succeeds, \<^verbatim>\<open>activeMinipools\<close> is the map the
  query returned: a pubkey resolves to what the new map gives it, so an entry of the old
  map that the new one lacks is gone.
\<close>

theorem checkMinipools_replaces:
  assumes "GetActiveMinipoolsByValidatorPubkey w = Inr found"
  shows "activeMinipools (fst (checkMinipools w p)) = found \<and>
         map_of (activeMinipools (fst (checkMinipools w p))) pubkey = map_of found pubkey"
  using assms by (simp add: checkMinipools_def scheduleCheckMinipools_def)

text \<open>The example: \<open>pubkeyC\<close> was managed and is not found again.\<close>

theorem checkMinipools_replaces_witness:
  "GetActiveMinipoolsByValidatorPubkey exampleWorld = Inr [(''pubkeyA'', 10), (''pubkeyB'', 11)] \<and>
   map_of (activeMinipools (exampleProcess\<lparr>activeMinipools := [(''pubkeyC'', 12)]\<rparr>)) ''pubkeyC'' =
     Some 12 \<and>
   activeMinipools (fst (checkMinipools exampleWorld
       (exampleProcess\<lparr>activeMinipools := [(''pubkeyC'', 12)]\<rparr>))) =
     [(''pubkeyA'', 10), (''pubkeyB'', 11)] \<and>
   map_of (activeMinipools (fst (checkMinipools exampleWorld
       (exampleProcess\<lparr>activeMinipools := [(''pubkeyC'', 12)]\<rparr>)))) ''pubkeyC'' = None"
  using checkMinipools_replaces [OF exampleWorld_simps(3),
      of "exampleProcess\<lparr>activeMinipools := [(''pubkeyC'', 12)]\<rparr>" "''pubkeyC''"]
  by (simp add: exampleWorld_simps)

text \<open>
  C7. Starting supervision a second time, right after the first, returns the process as
  the first call left it and has no effect, whatever the environment answers then; so the
  two calls together make the one discovery cycle and the one subscription of the first
  call (none when the process was supervising already). Standing down a second time,
  on the process as the first stand-down leaves it, likewise returns the process as it
  is, with no effect; and the two stand-downs in a row are the run of the first alone,
  also where the first never returns. The flag that guards both is set after starting
  and clear after standing down.
\<close>

theorem start_stop_idempotent:
  "startUpdateMinipools w2 (fst (startUpdateMinipools w1 p)) = (fst (startUpdateMinipools w1 p), []) \<and>
   stopUpdateMinipools (processOf (stopUpdateMinipools p)) =
     Returns (processOf (stopUpdateMinipools p)) [] \<and>
   (case stopUpdateMinipools p of
      Returns p' es \<Rightarrow> afterEffects es (stopUpdateMinipools p')
    | Blocks p' es \<Rightarrow> Blocks p' es) = stopUpdateMinipools p \<and>
   updatingMinipools (fst (startUpdateMinipools w1 p)) \<and>
   \<not> updatingMinipools (processOf (stopUpdateMinipools p)) \<and>
   filter isDiscovery (snd (startUpdateMinipools w1 p) @
       snd (startUpdateMinipools w2 (fst (startUpdateMinipools w1 p)))) =
     (if updatingMinipools p then [] else [ActiveMinipoolsQuery]) \<and>
   filter isAddSubscriber (snd (startUpdateMinipools w1 p) @
       snd (startUpdateMinipools w2 (fst (startUpdateMinipools w1 p)))) =
     (if updatingMinipools p then []
      else [AddSubscriber ''beacon.client.message'' (beaconMessageChannel p)])"
proof -
  have flag: "updatingMinipools (fst (startUpdateMinipools w1 p))"
    by (rule startUpdateMinipools_updating)
  have again: "startUpdateMinipools w2 (fst (startUpdateMinipools w1 p)) =
      (fst (startUpdateMinipools w1 p), [])"
    using flag by (rule startUpdateMinipools_supervising)
  have down: "\<not> updatingMinipools (processOf (stopUpdateMinipools p))"
    by (rule stopUpdateMinipools_down)
  have stop: "stopUpdateMinipools (processOf (stopUpdateMinipools p)) =
      Returns (processOf (stopUpdateMinipools p)) []"
    using down by (rule stopUpdateMinipools_idle)
  have both: "(case stopUpdateMinipools p of
        Returns p' es \<Rightarrow> afterEffects es (stopUpdateMinipools p')
      | Blocks p' es \<Rightarrow> Blocks p' es) = stopUpdateMinipools p"
    using stop by (cases "stopUpdateMinipools p") simp_all
  have cycles: "filter isDiscovery (snd (startUpdateMinipools w1 p)) =
      (if updatingMinipools p then [] else [ActiveMinipoolsQuery])"
  proof (cases "updatingMinipools p")
    case True
    then show ?thesis by (simp add: startUpdateMinipools_supervising)
  next
    case False
    then show ?thesis
      by (simp add: startUpdateMinipools_unfold checkMinipools_discovery)
         (simp add: isDiscovery_def)
  qed
  have subs: "filter isAddSubscriber (snd (startUpdateMinipools w1 p)) =
      (if updatingMinipools p then []
       else [AddSubscriber ''beacon.client.message'' (beaconMessageChannel p)])"
  proof (cases "updatingMinipools p")
    case True
    then show ?thesis by (simp add: startUpdateMinipools_supervising)
  next
    case False
    then show ?thesis
      by (simp add: startUpdateMinipools_unfold checkMinipools_no_subscriber)
         (simp add: isAddSubscriber_def)
  qed
  show ?thesis
    using flag stop both down cycles subs by (simp add: again)
qed

text \<open>
  The example: a process just made starts supervising; the second start changes nothing
  and the two calls make one discovery cycle and one subscription, of channel \<open>1\<close>.
\<close>

theorem start_stop_idempotent_witness:
  "\<not> updatingMinipools (fst (StartWatchtowerProcess 0)) \<and>
   startUpdateMinipools unreadableWorld firstSession = (firstSession, []) \<and>
   stopUpdateMinipools (processOf (stopUpdateMinipools firstSession)) =
     Returns (processOf (stopUpdateMinipools firstSession)) [] \<and>
   filter isDiscovery
     (snd (startUpdateMinipools exampleWorld (fst (StartWatchtowerProcess 0))) @
      snd (startUpdateMinipools unreadableWorld firstSession)) = [ActiveMinipoolsQuery] \<and>
   filter isAddSubscriber
     (snd (startUpdateMinipools exampleWorld (fst (StartWatchtowerProcess 0))) @
      snd (startUpdateMinipools unreadableWorld firstSession)) =
     [AddSubscriber ''beacon.client.message'' 1]"
proof -
  have made: "\<not> updatingMinipools (fst (StartWatchtowerProcess 0))"
    "beaconMessageChannel (fst (StartWatchtowerProcess 0)) = 1"
    by (simp_all add: StartWatchtowerProcess_def Let_def)
  note twice = start_stop_idempotent [of unreadableWorld exampleWorld "fst (StartWatchtowerProcess 0)"]
  have again: "startUpdateMinipools unreadableWorld firstSession = (firstSession, [])"
    unfolding firstSession_def by (rule twice [THEN conjunct1])
  have down: "stopUpdateMinipools (processOf (stopUpdateMinipools firstSession)) =
      Returns (processOf (stopUpdateMinipools firstSession)) []"
    by (rule start_stop_idempotent [of exampleWorld exampleWorld, THEN conjunct2, THEN conjunct1])
  have "filter isDiscovery
      (snd (startUpdateMinipools exampleWorld (fst (StartWatchtowerProcess 0))) @
       snd (startUpdateMinipools unreadableWorld firstSession)) =
      (if updatingMinipools (fst (StartWatchtowerProcess 0)) then [] else [ActiveMinipoolsQuery])"
    unfolding firstSession_def
    by (rule twice [THEN conjunct2, THEN conjunct2, THEN conjunct2, THEN conjunct2,
        THEN conjunct2, THEN conjunct1])
  then have cycles: "filter isDiscovery
      (snd (startUpdateMinipools exampleWorld (fst (StartWatchtowerProcess 0))) @
       snd (startUpdateMinipools unreadableWorld firstSession)) = [ActiveMinipoolsQuery]"
    using made(1) by (simp only: if_False)
  have "filter isAddSubscriber
      (snd (startUpdateMinipools exampleWorld (fst (StartWatchtowerProcess 0))) @
       snd (startUpdateMinipools unreadableWorld firstSession)) =
      (if updatingMinipools (fst (StartWatchtowerProcess 0)) then []
       else [AddSubscriber ''beacon.client.message''
               (beaconMessageChannel (fst (StartWatchtowerProcess 0)))])"
    unfolding firstSession_def
    by (rule twice [THEN conjunct2, THEN conjunct2, THEN conjunct2, THEN conjunct2,
        THEN conjunct2, THEN conjunct2])
  then have subs: "filter isAddSubscriber
      (snd (startUpdateMinipools exampleWorld (fst (StartWatchtowerProcess 0))) @
       snd (startUpdateMinipools unreadableWorld firstSession)) =
      [AddSubscriber ''beacon.client.message'' 1]"
    using made by (simp only: if_False)
  from made(1) again down cycles subs show ?thesis
    by blast
qed

text \<open>
  C9. The worker asserts the type of every value it receives without a check: a value
  of the struct type is handed to the message handler, and a value of any other dynamic
  type makes the assertion panic, with no line in the log and no later value handled.
  So the worker gets through its deliveries exactly when every one of them is of the
  struct type.
\<close>

theorem worker_type_assertion:
  "beaconWorker k ((w, p, EventValue c message) # rest) =
     (onBeaconClientMessage k w p message @ fst (beaconWorker k rest), snd (beaconWorker k rest)) \<and>
   beaconWorker k ((w, p, OtherValue t) # rest) = ([], Panicked) \<and>
   (snd (beaconWorker k deliveries) = Drained) =
     list_all (\<lambda>(w, p, eventData). isEventValue eventData) deliveries"
proof -
  have total: "(snd (beaconWorker k deliveries) = Drained) =
      list_all (\<lambda>(w, p, eventData). isEventValue eventData) deliveries"
  proof (induction deliveries)
    case Nil
    show ?case by simp
  next
    case (Cons d ds)
    obtain w' p' v where d: "d = (w', p', v)" by (cases d)
    show ?case
      using Cons.IH by (cases v) (simp_all add: d split_beta)
  qed
  show ?thesis
    using total by (simp add: split_beta)
qed

text \<open>
  The example: a message for an unmanaged pubkey is handled, the value of another type
  after it panics, and the message behind that is never handled.
\<close>

theorem worker_type_assertion_witness:
  "beaconWorker exampleConsts
     [(exampleWorld, exampleProcess\<lparr>activeMinipools := []\<rparr>, EventValue 0 []),
      (exampleWorld, exampleProcess, OtherValue 0),
      (exampleWorld, exampleProcess, EventValue 0 [])] =
     ([Lock, Unlock], Panicked)"
proof -
  have dropped: "onBeaconClientMessage exampleConsts exampleWorld
      (exampleProcess\<lparr>activeMinipools := []\<rparr>) [] = [Lock, Unlock]"
    by (simp add: onBeaconClientMessage_def exampleWorld_simps exampleMessage_simps)
  have handled: "beaconWorker exampleConsts
      [(exampleWorld, exampleProcess\<lparr>activeMinipools := []\<rparr>, EventValue 0 []),
       (exampleWorld, exampleProcess, OtherValue 0),
       (exampleWorld, exampleProcess, EventValue 0 [])] =
      (onBeaconClientMessage exampleConsts exampleWorld
         (exampleProcess\<lparr>activeMinipools := []\<rparr>) [] @
       fst (beaconWorker exampleConsts
         [(exampleWorld, exampleProcess, OtherValue 0),
          (exampleWorld, exampleProcess, EventValue 0 [])]),
       snd (beaconWorker exampleConsts
         [(exampleWorld, exampleProcess, OtherValue 0),
          (exampleWorld, exampleProcess, EventValue 0 [])]))"
    by (rule worker_type_assertion [THEN conjunct1])
  have panicked: "beaconWorker exampleConsts
      [(exampleWorld, exampleProcess, OtherValue 0),
       (exampleWorld, exampleProcess, EventValue 0 [])] = ([], Panicked)"
    by (rule worker_type_assertion [THEN conjunct2, THEN conjunct1])
  show ?thesis
    by (simp only: handled panicked dropped fst_conv snd_conv append_Nil2)
qed

text \<open>
  C10. The trust check reads the account and drops the error that comes with it: when
  the account manager fails, and returns the zero account with its error, the check
  still reads the trusted flag, for the zero address, and goes on from the answer as it
  does after any read, starting or stopping supervision.
\<close>

theorem checkTrusted_ignores_account_error:
  assumes "GetNodeAccount w = (zeroAccount, Some err)"
  shows "take 3 (effectsOf (checkTrusted w p)) =
           [WaitSync, NodeAccountLookup, Call ''rocketNodeAPI'' ''getTrusted'' [AddressArg 0]] \<and>
         checkTrusted w p =
           (case getTrusted w 0 of
              Inl e \<Rightarrow>
                Returns p
                  [WaitSync, NodeAccountLookup,
                   Call ''rocketNodeAPI'' ''getTrusted'' [AddressArg 0],
                   Println (ErrorLine (''Error retrieving node trusted status: '' @ e))]
            | Inr trusted \<Rightarrow>
                afterEffects
                  [WaitSync, NodeAccountLookup,
                   Call ''rocketNodeAPI'' ''getTrusted'' [AddressArg 0]]
                  (if trusted
                   then Returns (fst (startUpdateMinipools w p)) (snd (startUpdateMinipools w p))
                   else stopUpdateMinipools p))"
proof -
  have run: "checkTrusted w p =
      (case getTrusted w 0 of
         Inl e \<Rightarrow>
           Returns p
             [WaitSync, NodeAccountLookup,
              Call ''rocketNodeAPI'' ''getTrusted'' [AddressArg 0],
              Println (ErrorLine (''Error retrieving node trusted status: '' @ e))]
       | Inr trusted \<Rightarrow>
           afterEffects
             [WaitSync, NodeAccountLookup,
              Call ''rocketNodeAPI'' ''getTrusted'' [AddressArg 0]]
             (if trusted
              then Returns (fst (startUpdateMinipools w p)) (snd (startUpdateMinipools w p))
              else stopUpdateMinipools p))"
    using assms by (simp add: checkTrusted_def zeroAccount_def split_beta split: sum.split)
  have first: "take 3 (effectsOf (afterEffects [a, b, c] r)) = [a, b, c]" for a b c r
    by (cases r) simp_all
  have "take 3 (effectsOf (checkTrusted w p)) =
      [WaitSync, NodeAccountLookup, Call ''rocketNodeAPI'' ''getTrusted'' [AddressArg 0]]"
    by (simp only: run) (simp add: first split: sum.split)
  with run show ?thesis
    by blast
qed

text \<open>
  The example: the node has no account, the flag read for the zero address says trusted,
  and the process starts supervising.
\<close>

theorem checkTrusted_ignores_account_error_witness:
  "GetNodeAccount accountlessWorld = (zeroAccount, Some ''no account'') \<and>
   take 3 (effectsOf (checkTrusted accountlessWorld (fst (StartWatchtowerProcess 0)))) =
     [WaitSync, NodeAccountLookup, Call ''rocketNodeAPI'' ''getTrusted'' [AddressArg 0]] \<and>
   updatingMinipools (processOf (checkTrusted accountlessWorld (fst (StartWatchtowerProcess 0))))"
proof -
  have h: "GetNodeAccount accountlessWorld = (zeroAccount, Some ''no account'')"
    by (rule accountlessWorld_simps)
  have first: "take 3 (effectsOf (checkTrusted accountlessWorld (fst (StartWatchtowerProcess 0)))) =
      [WaitSync, NodeAccountLookup, Call ''rocketNodeAPI'' ''getTrusted'' [AddressArg 0]]"
    by (rule checkTrusted_ignores_account_error
        [OF h, of "fst (StartWatchtowerProcess 0)", THEN conjunct1])
  have "checkTrusted accountlessWorld (fst (StartWatchtowerProcess 0)) =
      Returns (fst (startUpdateMinipools accountlessWorld (fst (StartWatchtowerProcess 0))))
        ([WaitSync, NodeAccountLookup, Call ''rocketNodeAPI'' ''getTrusted'' [AddressArg 0]] @
         snd (startUpdateMinipools accountlessWorld (fst (StartWatchtowerProcess 0))))"
    using checkTrusted_ignores_account_error
      [OF h, of "fst (StartWatchtowerProcess 0)", THEN conjunct2]
    by (simp add: accountlessWorld_simps)
  then have "updatingMinipools
      (processOf (checkTrusted accountlessWorld (fst (StartWatchtowerProcess 0))))"
    by (simp add: startUpdateMinipools_updating)
  with h first show ?thesis
    by simp
qed

end
